theory Spec2Isabelle
  imports Complex_Main "HOL-Library.AList"
begin

section \<open>Background service worker (src/background/background.js)\<close>

text \<open>
  The service worker keeps one module-level variable \<open>pendingCapture\<close> (\<open>{ tabId }\<close> or
  \<open>null\<close>), mirrors it under the key \<open>pendingCapture\<close> of \<open>chrome.storage.session\<close>, and
  shows a badge while a capture is armed.  A restart of the worker re-runs the module, so the
  variable is \<open>null\<close> again; session storage and the badge are browser state and survive.
\<close>

type_synonym tab_id = nat

record tab =
  tab_ident :: tab_id
  windowId :: nat

record bg_state =
  pendingCapture :: "tab_id option"
  session_pendingCapture :: "tab_id option"
  badgeText :: string

text \<open>Messages the worker sends into a tab (\<open>chrome.tabs.sendMessage\<close>).\<close>

datatype tab_message =
    ToggleSidebar
  | HideForCapture
  | ScreenshotResult "string option" "string option"

type_synonym outbox = "(tab_id \<times> tab_message) list"

text \<open>What \<open>chrome.tabs.captureVisibleTab\<close> hands to its callback: a data URL, or
  \<open>chrome.runtime.lastError\<close> with its message.\<close>

datatype capture_outcome = Captured string | LastError string

text \<open>The badge is the camera emoji U+1F4F8, here as its four UTF-8 bytes.\<close>

definition camera_badge :: string where
  "camera_badge = [CHR 0xF0, CHR 0x9F, CHR 0x93, CHR 0xB8]"

definition setPendingCapture :: "tab_id \<Rightarrow> bg_state \<Rightarrow> bg_state" where
  "setPendingCapture tabId st =
     st\<lparr>pendingCapture := Some tabId,
        session_pendingCapture := Some tabId,
        badgeText := camera_badge\<rparr>"

definition clearPendingCapture :: "bg_state \<Rightarrow> bg_state" where
  "clearPendingCapture st =
     st\<lparr>pendingCapture := None, session_pendingCapture := None, badgeText := ''''\<rparr>"

text \<open>\<open>captureAndSend\<close>: the \<open>hideForCapture\<close> round trip, the 200 ms settle delay, the
  capture, then one \<open>screenshotResult\<close> message in either branch, then the token is cleared.
  The callbacks run in this order; the delays carry no state and are elided.\<close>

definition screenshotResult :: "capture_outcome \<Rightarrow> tab_message" where
  "screenshotResult oc =
     (case oc of
        LastError msg \<Rightarrow> ScreenshotResult None (Some msg)
      | Captured dataUrl \<Rightarrow> ScreenshotResult (Some dataUrl) None)"

definition captureAndSend :: "tab \<Rightarrow> capture_outcome \<Rightarrow> bg_state \<Rightarrow> bg_state \<times> outbox" where
  "captureAndSend t oc st =
     (clearPendingCapture st,
      [(tab_ident t, HideForCapture), (tab_ident t, screenshotResult oc)])"

text \<open>\<open>chrome.action.onClicked\<close>: the fast path on the in-memory token, else the slow path
  on the session record, else the sidebar toggle.\<close>

definition onClicked :: "tab \<Rightarrow> capture_outcome \<Rightarrow> bg_state \<Rightarrow> bg_state \<times> outbox" where
  "onClicked t oc st =
     (if pendingCapture st = Some (tab_ident t) then captureAndSend t oc st
      else if session_pendingCapture st = Some (tab_ident t)
           then captureAndSend t oc (st\<lparr>pendingCapture := session_pendingCapture st\<rparr>)
           else (st, [(tab_ident t, ToggleSidebar)]))"

text \<open>A restart of the service worker: \<open>let pendingCapture = null\<close> runs again.\<close>

definition restart :: "bg_state \<Rightarrow> bg_state" where
  "restart st = st\<lparr>pendingCapture := None\<rparr>"

text \<open>\<open>chrome.runtime.onMessage\<close>.  The sender of a content-script message carries its tab;
  a sender without one makes \<open>sender.tab.id\<close> throw.  \<open>captureForCache\<close> answers with the
  capture outcome and touches no state.\<close>

datatype request = PrepareCapture | CancelCapture | CaptureForCache | OtherAction string

datatype response =
    Ok
  | CacheShot "string option" "string option"

datatype bg_error = TypeError

definition onMessage ::
  "request \<Rightarrow> tab option \<Rightarrow> capture_outcome \<Rightarrow> bg_state \<Rightarrow> bg_error + (bg_state \<times> response option)"
where
  "onMessage req sender oc st =
     (case req of
        PrepareCapture \<Rightarrow>
          (case sender of
             None \<Rightarrow> Inl TypeError
           | Some t \<Rightarrow> Inr (setPendingCapture (tab_ident t) st, Some Ok))
      | CancelCapture \<Rightarrow> Inr (clearPendingCapture st, Some Ok)
      | CaptureForCache \<Rightarrow>
          (case sender of
             None \<Rightarrow> Inl TypeError
           | Some t \<Rightarrow>
               Inr (st, Some (case oc of
                                LastError msg \<Rightarrow> CacheShot None (Some msg)
                              | Captured dataUrl \<Rightarrow> CacheShot (Some dataUrl) None)))
      | OtherAction a \<Rightarrow> Inr (st, None))"

section \<open>Capture handshake, in-page side (src/content/content.js)\<close>

text \<open>
  \<open>waitForScreenshotOrCancel\<close> returns a promise and stores its resolver in the module
  variable \<open>screenshotResolver\<close>.  The message object of a \<open>screenshotResult\<close> is what the
  promise resolves with; \<open>null\<close> is the value on cancellation.  Resolving a settled promise
  has no effect.
\<close>

record capture_result =
  screenshot :: "string option"
  error :: "string option"

datatype 'a promise = Pending | Resolved 'a

definition resolve :: "'a \<Rightarrow> 'a promise \<Rightarrow> 'a promise" where
  "resolve v p = (case p of Pending \<Rightarrow> Resolved v | Resolved w \<Rightarrow> Resolved w)"

record page_state =
  screenshotResolver :: bool
  awaited :: "capture_result option promise"
  overlay_attached :: bool
  overlay_displayed :: bool
  sidebarOpen :: bool
  to_background :: "request list"

definition waitForScreenshotOrCancel :: "page_state \<Rightarrow> page_state" where
  "waitForScreenshotOrCancel ps =
     ps\<lparr>awaited := Pending,
        overlay_attached := True,
        overlay_displayed := True,
        screenshotResolver := True\<rparr>"

text \<open>The closure stored in \<open>screenshotResolver\<close>.\<close>

definition resolver_call :: "capture_result \<Rightarrow> page_state \<Rightarrow> page_state" where
  "resolver_call res ps =
     ps\<lparr>overlay_attached := False, awaited := resolve (Some res) (awaited ps)\<rparr>"

text \<open>The click handler of the overlay's Cancel button; \<open>ctx_ok\<close> is false when
  \<open>chrome.runtime.sendMessage\<close> throws (extension context gone), which the handler catches.\<close>

definition cancel_click :: "bool \<Rightarrow> page_state \<Rightarrow> page_state" where
  "cancel_click ctx_ok ps =
     ps\<lparr>screenshotResolver := False,
        overlay_attached := False,
        to_background := (if ctx_ok then to_background ps @ [CancelCapture] else to_background ps),
        awaited := resolve None (awaited ps)\<rparr>"

text \<open>The content script's \<open>chrome.runtime.onMessage\<close> listener.\<close>

definition page_onMessage :: "tab_message \<Rightarrow> page_state \<Rightarrow> page_state" where
  "page_onMessage m ps =
     (case m of
        ToggleSidebar \<Rightarrow> ps\<lparr>sidebarOpen := \<not> sidebarOpen ps\<rparr>
      | HideForCapture \<Rightarrow>
          (if overlay_attached ps then ps\<lparr>overlay_displayed := False\<rparr> else ps)
      | ScreenshotResult shot err \<Rightarrow>
          (if screenshotResolver ps
           then (resolver_call \<lparr>screenshot = shot, error = err\<rparr> ps)\<lparr>screenshotResolver := False\<rparr>
           else ps))"

text \<open>Messages of an outbox that are addressed to tab \<open>t\<close>, delivered in order.\<close>

definition deliver :: "tab_id \<Rightarrow> outbox \<Rightarrow> page_state \<Rightarrow> page_state" where
  "deliver t out ps = fold page_onMessage (map snd (filter (\<lambda>m. fst m = t) out)) ps"

text \<open>
  One export capture, end to end, from the calls above: the page sends \<open>prepareCapture\<close>
  and starts waiting; then either the user cancels, or the user clicks the icon and the
  capture engine succeeds or fails.  \<open>restarted\<close> says whether the service worker was torn
  down between arming and the click, \<open>ctx_ok\<close> whether the page can still reach the worker
  when the user cancels.
\<close>

datatype terminal = CaptureSuccess string | CaptureError string | UserCancel

definition armed :: "tab \<Rightarrow> bg_state \<Rightarrow> bg_state" where
  "armed t bg =
     (case onMessage PrepareCapture (Some t) (LastError []) bg of
        Inr (bg', r) \<Rightarrow> bg' | Inl e \<Rightarrow> bg)"

definition handshake ::
  "tab \<Rightarrow> bool \<Rightarrow> bool \<Rightarrow> terminal \<Rightarrow> bg_state \<Rightarrow> page_state \<Rightarrow> bg_state \<times> page_state"
where
  "handshake t restarted ctx_ok fin bg ps =
     (let bg1 = armed t bg;
          bg2 = (if restarted then restart bg1 else bg1);
          ps1 = waitForScreenshotOrCancel (ps\<lparr>to_background := to_background ps @ [PrepareCapture]\<rparr>)
      in case fin of
           UserCancel \<Rightarrow>
             (if ctx_ok
              then (case onMessage CancelCapture (Some t) (LastError []) bg2 of
                      Inr (bg3, r) \<Rightarrow> (bg3, cancel_click ctx_ok ps1)
                    | Inl e \<Rightarrow> (bg2, cancel_click ctx_ok ps1))
              else (bg2, cancel_click ctx_ok ps1))
         | CaptureSuccess dataUrl \<Rightarrow>
             (let (bg3, out) = onClicked t (Captured dataUrl) bg2
              in (bg3, deliver (tab_ident t) out ps1))
         | CaptureError msg \<Rightarrow>
             (let (bg3, out) = onClicked t (LastError msg) bg2
              in (bg3, deliver (tab_ident t) out ps1)))"

definition expected_result :: "terminal \<Rightarrow> capture_result option" where
  "expected_result fin =
     (case fin of
        CaptureSuccess dataUrl \<Rightarrow> Some \<lparr>screenshot = Some dataUrl, error = None\<rparr>
      | CaptureError msg \<Rightarrow> Some \<lparr>screenshot = None, error = Some msg\<rparr>
      | UserCancel \<Rightarrow> None)"

section \<open>Annotation identifiers (content.js, \<open>generateAnnotationId\<close>)\<close>

text \<open>
  \<open>Date.now() * 100 + (annotationIdCounter++ % 100)\<close>.  The clock reading is an input; the
  counter is state.  The numbers involved stay far below \<open>2^53\<close>, so JS arithmetic on them is
  exact and they are natural numbers here.
\<close>

definition generateAnnotationId :: "nat \<Rightarrow> nat \<Rightarrow> nat \<times> nat" where
  "generateAnnotationId now annotationIdCounter =
     (now * 100 + annotationIdCounter mod 100, annotationIdCounter + 1)"

text \<open>The identifiers of a run of calls: the counter before the first call, and the clock
  reading of each call.\<close>

fun generate_ids :: "nat \<Rightarrow> nat list \<Rightarrow> nat list" where
  "generate_ids c [] = []"
| "generate_ids c (now # ts) =
     (let (ident, c') = generateAnnotationId now c in ident # generate_ids c' ts)"

section \<open>Annotation store (content.js, \<open>saveAnnotations\<close>, \<open>loadAnnotations\<close>)\<close>

text \<open>
  A JS object used as a dictionary is an association list in insertion order:
  \<open>obj[k] = v\<close> is \<^const>\<open>AList.update\<close> (overwrite in place, or append), \<open>delete obj[k]\<close> is
  \<^const>\<open>AList.delete\<close>, \<open>Object.keys(obj)\<close> is \<open>map fst\<close>, \<open>obj[k]\<close> is \<^const>\<open>map_of\<close>.
  Page keys are \<open>pathname + search\<close> and begin with a slash, so none of them is an array
  index, and \<open>Object.keys\<close> lists them in insertion order.
\<close>

type_synonym page_key = string
type_synonym 'v js_object = "(string \<times> 'v) list"

text \<open>An annotation as \<open>handleMouseUp\<close> builds it.\<close>

record annotation =
  ann_id :: nat
  ann_x :: int
  ann_y :: int
  ann_width :: rat
  ann_height :: rat
  ann_comment :: string
  ann_timestamp :: string
  ann_url :: string
  ann_tool :: string
  ann_color :: string
  ann_freehandPath :: "(int \<times> int) list option"
  ann_startPoint :: "int \<times> int"
  ann_endPoint :: "int \<times> int"

text \<open>\<open>chrome.storage.local\<close>: the two entries the extension writes, each absent or present.\<close>

record storage =
  st_annotations :: "annotation list js_object option"
  st_screenshotCache :: "string js_object option"

text \<open>
  The content script's module variables that the store uses.  \<open>annotations\<close> is a reference
  to an array, and \<open>allAnnotationsCache[pageKey] = annotations\<close> stores that reference:
  \<open>shared_with\<close> lists the keys of the cache whose bucket is the very array \<open>annotations\<close>
  points to, so that \<open>annotations.push\<close> can be modelled with its effect on those buckets.
\<close>

record page_store =
  allAnnotationsCache :: "annotation list js_object option"
  annotations :: "annotation list"
  shared_with :: "page_key list"
  pathname :: string
  search :: string
  screenshotCache :: "string js_object"

definition getPageKey :: "page_store \<Rightarrow> page_key" where
  "getPageKey ps = pathname ps @ search ps"

text \<open>\<open>result.annotations || {}\<close>.\<close>

definition or_empty :: "'v js_object option \<Rightarrow> 'v js_object" where
  "or_empty r = (case r of None \<Rightarrow> [] | Some m \<Rightarrow> m)"

text \<open>
  \<open>chrome.storage.local.get\<close> is asynchronous: the call returns at once and the callback runs
  later, after whatever other callbacks were queued before it.  What the callback receives
  is either \<open>chrome.runtime.lastError\<close> or the \<open>annotations\<close> entry as it was read.  The call
  and the callback are therefore two steps here, and every variable is read in the step in
  which the code reads it.  \<open>write_ok\<close> says whether \<open>chrome.storage.local.set\<close> finishes
  without an error; its argument is fixed when it is called, and a failed \<open>set\<close> leaves the
  storage as it was.
\<close>

datatype get_result = GetError | GetResult "annotation list js_object option"

definition storage_get :: "storage \<Rightarrow> get_result" where
  "storage_get sto = GetResult (st_annotations sto)"

text \<open>\<open>saveAnnotations()\<close>, the call.  With the cache loaded it writes at once.  With the
  cache \<open>null\<close> it only issues the read; the page key it has computed goes to the callback.\<close>

definition saveAnnotations ::
  "bool \<Rightarrow> page_store \<times> storage \<Rightarrow> (page_store \<times> storage) \<times> page_key option"
where
  "saveAnnotations write_ok = (\<lambda>(ps, sto).
     let pageKey = getPageKey ps in
     case allAnnotationsCache ps of
       None \<Rightarrow> ((ps, sto), Some pageKey)
     | Some c0 \<Rightarrow>
         let c = AList.update pageKey (annotations ps) c0
         in ((ps\<lparr>allAnnotationsCache := Some c,
                 shared_with := List.insert pageKey (shared_with ps)\<rparr>,
              if write_ok then sto\<lparr>st_annotations := Some c\<rparr> else sto),
             None))"

text \<open>The callback of the read issued by \<open>saveAnnotations\<close>: it replaces the cache by what
  was read, puts the list that \<open>annotations\<close> holds now under the page key of the call, and
  writes.\<close>

definition saveAnnotations_callback ::
  "page_key \<Rightarrow> get_result \<Rightarrow> bool \<Rightarrow> page_store \<times> storage \<Rightarrow> page_store \<times> storage"
where
  "saveAnnotations_callback pageKey result write_ok = (\<lambda>(ps, sto).
     case result of
       GetError \<Rightarrow> (ps, sto)
     | GetResult r \<Rightarrow>
         let c = AList.update pageKey (annotations ps) (or_empty r)
         in (ps\<lparr>allAnnotationsCache := Some c, shared_with := [pageKey]\<rparr>,
             if write_ok then sto\<lparr>st_annotations := Some c\<rparr> else sto))"

text \<open>\<open>loadAnnotations()\<close>, the call: it computes the page key and the legacy key and issues
  the read.\<close>

definition loadAnnotations :: "page_store \<Rightarrow> page_key \<times> string" where
  "loadAnnotations ps = (getPageKey ps, pathname ps)"

definition loadAnnotations_callback ::
  "page_key \<Rightarrow> string \<Rightarrow> get_result \<Rightarrow> bool \<Rightarrow> page_store \<times> storage \<Rightarrow> page_store \<times> storage"
where
  "loadAnnotations_callback pageKey legacyKey result write_ok = (\<lambda>(ps, sto).
     case result of
       GetError \<Rightarrow> (ps, sto)
     | GetResult r \<Rightarrow>
         let c0 = or_empty r;
             anns = (case map_of c0 pageKey of None \<Rightarrow> [] | Some l \<Rightarrow> l)
         in case map_of c0 legacyKey of
              Some legacy \<Rightarrow>
                if length anns = 0 \<and> legacyKey \<noteq> pageKey
                then
                  let c1 = AList.delete legacyKey (AList.update pageKey legacy c0)
                  in (ps\<lparr>allAnnotationsCache := Some c1, annotations := legacy,
                         shared_with := [pageKey]\<rparr>,
                      if write_ok then sto\<lparr>st_annotations := Some c1\<rparr> else sto)
                else (ps\<lparr>allAnnotationsCache := Some c0, annotations := anns,
                         shared_with := (if map_of c0 pageKey = None then [] else [pageKey])\<rparr>,
                      sto)
            | None \<Rightarrow>
                (ps\<lparr>allAnnotationsCache := Some c0, annotations := anns,
                    shared_with := (if map_of c0 pageKey = None then [] else [pageKey])\<rparr>,
                 sto))"

text \<open>A load with nothing between its call, its read and its callback.\<close>

definition load_completed :: "page_store \<times> storage \<Rightarrow> page_store \<times> storage" where
  "load_completed = (\<lambda>(ps, sto).
     let (pageKey, legacyKey) = loadAnnotations ps
     in loadAnnotations_callback pageKey legacyKey (storage_get sto) True (ps, sto))"

text \<open>\<open>annotations.push(annotation)\<close> in \<open>handleMouseUp\<close>: the array grows in place, and
  with it every bucket of the cache that is this array.\<close>

definition push_annotation :: "annotation \<Rightarrow> page_store \<Rightarrow> page_store" where
  "push_annotation a ps =
     (let anns = annotations ps @ [a]
      in ps\<lparr>annotations := anns,
            allAnnotationsCache :=
              map_option (map (\<lambda>(k, v). if k \<in> set (shared_with ps) then (k, anns) else (k, v)))
                (allAnnotationsCache ps)\<rparr>)"

text \<open>The stored bucket of a page key.\<close>

definition stored_bucket :: "storage \<Rightarrow> page_key \<Rightarrow> annotation list option" where
  "stored_bucket sto k = map_of (or_empty (st_annotations sto)) k"

text \<open>Two tabs on an empty storage, used below: tab A shows \<open>/r/1\<close>, tab B shows \<open>/r/2\<close>.
  Both load; B creates a comment and saves; then A creates one and saves.  Each save
  follows a completed load, so it writes within the call.\<close>

definition fresh_tab :: "string \<Rightarrow> page_store" where
  "fresh_tab path =
     \<lparr>allAnnotationsCache = None, annotations = [], shared_with = [],
      pathname = path, search = [], screenshotCache = []\<rparr>"

definition sample_annotation :: "nat \<Rightarrow> string \<Rightarrow> string \<Rightarrow> annotation" where
  "sample_annotation i body page =
     \<lparr>ann_id = i, ann_x = 10, ann_y = 10, ann_width = 50, ann_height = 50,
      ann_comment = body, ann_timestamp = ''2026-01-01T00:00:00.000Z'',
      ann_url = ''https://app.powerbi.com'' @ page,
      ann_tool = ''rectangle'', ann_color = ''#0078d4'',
      ann_freehandPath = None, ann_startPoint = (10, 10), ann_endPoint = (60, 60)\<rparr>"

definition empty_storage :: storage where
  "empty_storage = \<lparr>st_annotations = None, st_screenshotCache = None\<rparr>"







text \<open>
  A save while the initial load is in flight.  \<open>init\<close> has called \<open>loadAnnotations\<close>; before
  its callback runs the user's comment is pushed and \<open>saveAnnotations\<close> is called, which
  finds the cache \<open>null\<close> and issues its own read.  The callbacks run in the order of the
  calls: first the load's, then the save's.
\<close>

definition save_during_load_before :: "page_store \<times> storage" where
  "save_during_load_before =
     fst (saveAnnotations True
       (push_annotation (sample_annotation 170000000000000 ''A'' ''/r/1'') (fresh_tab ''/r/1''),
        empty_storage))"

definition save_during_load :: "page_store \<times> storage" where
  "save_during_load =
     (let (pageKey, legacyKey) = loadAnnotations (fresh_tab ''/r/1'');
          st1 = save_during_load_before;
          st2 = loadAnnotations_callback pageKey legacyKey (storage_get empty_storage) True st1
      in saveAnnotations_callback ''/r/1'' (storage_get (snd st2)) True st2)"

text \<open>A navigation inside the single-page application changes \<open>window.location\<close> and
  leaves the script's variables alone.  One tab: load on \<open>/r/1\<close>, create a comment, save,
  navigate to \<open>/r/2\<close>, create a comment there.\<close>

definition navigate :: "string \<Rightarrow> string \<Rightarrow> page_store \<Rightarrow> page_store" where
  "navigate path query ps = ps\<lparr>pathname := path, search := query\<rparr>"

definition single_tab :: "page_store \<times> storage" where
  "single_tab =
     (let (ps1, sto1) = load_completed (fresh_tab ''/r/1'', empty_storage);
          (ps2, sto2) = fst (saveAnnotations True
             (push_annotation (sample_annotation 170000000000000 ''A'' ''/r/1'') ps1, sto1))
      in (push_annotation (sample_annotation 170000000010001 ''B'' ''/r/2'')
            (navigate ''/r/2'' [] ps2), sto2))"

section \<open>Screenshot cache (revised content.js carried in REVIEW.md)\<close>

text \<open>
  REVIEW.md carries, after the review of the first pull request, the later revision of
  \<open>content.js\<close>: the one with the navigation watcher, the screenshot cache and the export of
  all pages.  What follows in this and the next section is taken from that revision.

  The reply of the worker to \<open>captureForCache\<close>, as \<open>cacheCurrentScreenshot\<close> sees it:
  \<open>sendMessage\<close> throws, or the callback finds \<open>chrome.runtime.lastError\<close>, or it gets a
  response whose \<open>screenshot\<close> is a data URL or missing.
\<close>

datatype cache_reply = SendThrows | ReplyLastError | Reply "string option"

definition cacheCurrentScreenshot ::
  "page_key option \<Rightarrow> cache_reply \<Rightarrow> bool \<Rightarrow> page_store \<times> storage \<Rightarrow> page_store \<times> storage"
where
  "cacheCurrentScreenshot pageKey reply write_ok = (\<lambda>(ps, sto).
     let key = (case pageKey of
                  None \<Rightarrow> getPageKey ps
                | Some k \<Rightarrow> if k = [] then getPageKey ps else k)
     in
       if (case allAnnotationsCache ps of
             None \<Rightarrow> False
           | Some c \<Rightarrow> (case map_of c key of None \<Rightarrow> True | Some l \<Rightarrow> length l = 0))
       then (ps, sto)
       else
         case reply of
           Reply (Some shot) \<Rightarrow>
             if shot = [] then (ps, sto)
             else
               let sc = AList.update key shot (screenshotCache ps);
                   keys = map fst sc;
                   sc' = (if length keys > 20 then AList.delete (keys ! 0) sc else sc)
               in (ps\<lparr>screenshotCache := sc'\<rparr>,
                   if write_ok then sto\<lparr>st_screenshotCache := Some sc'\<rparr> else sto)
         | Reply None \<Rightarrow> (ps, sto)
         | ReplyLastError \<Rightarrow> (ps, sto)
         | SendThrows \<Rightarrow> (ps, sto))"

text \<open>The other write to the cache, in \<open>generateMultiPagePresentation\<close> after the capture
  of the current page: \<open>if (currentScreenshot) { screenshotCache[currentKey] =
  currentScreenshot; chrome.storage.local.set({ screenshotCache }); }\<close>.\<close>

definition generateMultiPagePresentation_cache ::
  "string option \<Rightarrow> bool \<Rightarrow> page_store \<times> storage \<Rightarrow> page_store \<times> storage"
where
  "generateMultiPagePresentation_cache currentScreenshot write_ok = (\<lambda>(ps, sto).
     let currentKey = getPageKey ps in
     case currentScreenshot of
       None \<Rightarrow> (ps, sto)
     | Some shot \<Rightarrow>
         if shot = [] then (ps, sto)
         else
           let sc = AList.update currentKey shot (screenshotCache ps)
           in (ps\<lparr>screenshotCache := sc\<rparr>,
               if write_ok then sto\<lparr>st_screenshotCache := Some sc\<rparr> else sto))"

section \<open>Spreadsheet export (revised content.js carried in REVIEW.md)\<close>

text \<open>\<open>String(n)\<close> for a row number: its decimal digits.\<close>

fun string_of_nat :: "nat \<Rightarrow> string" where
  "string_of_nat n =
     (if n < 10 then [''0123456789'' ! n]
      else string_of_nat (n div 10) @ [''0123456789'' ! (n mod 10)])"

declare string_of_nat.simps [simp del]

text \<open>A row holds a number and three strings; \<open>String(cell)\<close> makes each a string.\<close>

datatype cell = Num nat | Str string

definition cell_string :: "cell \<Rightarrow> string" where
  "cell_string c = (case c of Num n \<Rightarrow> string_of_nat n | Str s \<Rightarrow> s)"

definition quote_char :: char where
  "quote_char = CHR 0x22"

definition newline_char :: char where
  "newline_char = CHR 0x0A"

text \<open>\<open>cellStr.replace(/"/g, '""')\<close>.\<close>

definition replace_quotes :: "string \<Rightarrow> string" where
  "replace_quotes s = concat (map (\<lambda>c. if c = quote_char then [quote_char, quote_char] else [c]) s)"

definition csv_field :: "string \<Rightarrow> string" where
  "csv_field cellStr =
     (if CHR '','' \<in> set cellStr \<or> quote_char \<in> set cellStr \<or> newline_char \<in> set cellStr
      then [quote_char] @ replace_quotes cellStr @ [quote_char]
      else cellStr)"

text \<open>\<open>Array.prototype.join\<close>.\<close>

fun join :: "string \<Rightarrow> string list \<Rightarrow> string" where
  "join sep [] = []"
| "join sep [x] = x"
| "join sep (x # y # ys) = x @ sep @ join sep (y # ys)"

record csv_page =
  page_name :: string
  page_annotations :: "annotation list"

text \<open>The two nested loops of \<open>buildCsvRows\<close>, with \<open>globalNumber\<close> threaded through.
  \<open>toLocaleDateString\<close> stands for \<open>new Date(timestamp).toLocaleDateString()\<close>, which depends
  on the browser's locale.\<close>

fun page_rows ::
  "(string \<Rightarrow> string) \<Rightarrow> string \<Rightarrow> annotation list \<Rightarrow> nat \<Rightarrow> cell list list \<times> nat"
where
  "page_rows toLocaleDateString name [] globalNumber = ([], globalNumber)"
| "page_rows toLocaleDateString name (a # rest) globalNumber =
     (let (rows, g) = page_rows toLocaleDateString name rest (globalNumber + 1)
      in ([Num globalNumber, Str name, Str (toLocaleDateString (ann_timestamp a)),
           Str (ann_comment a)] # rows, g))"

fun allRows :: "(string \<Rightarrow> string) \<Rightarrow> csv_page list \<Rightarrow> nat \<Rightarrow> cell list list" where
  "allRows toLocaleDateString [] globalNumber = []"
| "allRows toLocaleDateString (p # pages) globalNumber =
     (let (rows, g) = page_rows toLocaleDateString (page_name p) (page_annotations p) globalNumber
      in rows @ allRows toLocaleDateString pages g)"

definition headers :: "string list" where
  "headers = [''No'', ''Page Name'', ''Date'', ''Comment'']"

definition buildCsvRows :: "(string \<Rightarrow> string) \<Rightarrow> csv_page list \<Rightarrow> string" where
  "buildCsvRows toLocaleDateString pages =
     join [newline_char]
       (join '','' headers #
        map (\<lambda>row. join '','' (map (\<lambda>c. csv_field (cell_string c)) row))
          (allRows toLocaleDateString pages 1))"

text \<open>\<open>getAnnotatedPages\<close>: the keys of the cache with a non-empty list, in the order of
  \<open>Object.keys\<close>.  How a page gets its name (the page's tab in the DOM for the current page,
  the last path segment of the first annotation's URL otherwise) is the parameter \<open>label\<close>.\<close>

record annotated_page =
  ap_key :: page_key
  ap_name :: string
  ap_count :: nat
  ap_isCurrent :: bool
  ap_hasScreenshot :: bool

definition getAnnotatedPages ::
  "(page_key \<Rightarrow> annotation list \<Rightarrow> string) \<Rightarrow> page_store \<Rightarrow> annotated_page list"
where
  "getAnnotatedPages label ps =
     (case allAnnotationsCache ps of
        None \<Rightarrow> []
      | Some c \<Rightarrow>
          map (\<lambda>(key, pageAnnotations).
                 \<lparr>ap_key = key, ap_name = label key pageAnnotations,
                  ap_count = length pageAnnotations,
                  ap_isCurrent = (key = getPageKey ps),
                  ap_hasScreenshot =
                    (case map_of (screenshotCache ps) key of None \<Rightarrow> False | Some s \<Rightarrow> s \<noteq> [])\<rparr>)
            (filter (\<lambda>(key, pageAnnotations). length pageAnnotations > 0) c))"

text \<open>\<open>exportAnnotations\<close> up to the CSV text: nothing to export without annotations on the
  current page; the scope dialog answers \<open>current\<close> by itself unless more than one page is
  annotated, else the user picks a scope or cancels.\<close>

datatype scope = All | Current

definition showScopeDialog ::
  "(page_key \<Rightarrow> annotation list \<Rightarrow> string) \<Rightarrow> scope option \<Rightarrow> page_store \<Rightarrow> scope option"
where
  "showScopeDialog label choice ps =
     (if length (getAnnotatedPages label ps) \<le> 1 then Some Current else choice)"

definition exportAnnotations ::
  "(page_key \<Rightarrow> annotation list \<Rightarrow> string) \<Rightarrow> (string \<Rightarrow> string) \<Rightarrow> string \<Rightarrow> scope option
     \<Rightarrow> page_store \<Rightarrow> string option"
where
  "exportAnnotations label toLocaleDateString pageName choice ps =
     (if length (annotations ps) = 0 then None
      else
        case showScopeDialog label choice ps of
          None \<Rightarrow> None
        | Some All \<Rightarrow>
            Some (buildCsvRows toLocaleDateString
              (map (\<lambda>p. \<lparr>page_name = ap_name p,
                         page_annotations =
                           (case map_of (or_empty (allAnnotationsCache ps)) (ap_key p) of
                              None \<Rightarrow> [] | Some l \<Rightarrow> l)\<rparr>)
                 (getAnnotatedPages label ps)))
        | Some Current \<Rightarrow>
            Some (buildCsvRows toLocaleDateString
              [\<lparr>page_name = pageName, page_annotations = annotations ps\<rparr>]))"

text \<open>A tab on \<open>/r/20\<close> with one comment there, whose screenshot cache holds the
  twenty pages \<open>/r/0\<close> to \<open>/r/19\<close>, oldest first.\<close>

definition cached_pages :: "nat \<Rightarrow> string js_object" where
  "cached_pages n = map (\<lambda>i. (''/r/'' @ string_of_nat i, ''data:image/png;base64,AAAA'')) [0..<n]"

definition export_tab :: page_store where
  "export_tab =
     \<lparr>allAnnotationsCache = Some [(''/r/20'', [sample_annotation 170000000000000 ''A'' ''/r/20''])],
      annotations = [sample_annotation 170000000000000 ''A'' ''/r/20''],
      shared_with = [''/r/20''], pathname = ''/r/20'', search = [],
      screenshotCache = cached_pages 20\<rparr>"

section \<open>Navigation inside the application (revised content.js carried in REVIEW.md)\<close>

text \<open>
  The revision has the same \<open>saveAnnotations\<close>, \<open>loadAnnotations\<close> and \<open>getPageKey\<close> as
  \<open>content.js\<close>.  What \<open>handleMouseUp\<close> does there once the comment is entered:
  \<open>annotations.push(annotation); saveAnnotations(); \<dots> cacheCurrentScreenshot();\<close>.  The
  result carries the page key of a read that the save has issued and not yet seen answered.
\<close>

definition add_comment ::
  "annotation \<Rightarrow> cache_reply \<Rightarrow> bool \<Rightarrow> page_store \<times> storage
     \<Rightarrow> (page_store \<times> storage) \<times> page_key option"
where
  "add_comment a reply write_ok = (\<lambda>(ps, sto).
     let (st1, pending) = saveAnnotations write_ok (push_annotation a ps, sto)
     in (cacheCurrentScreenshot None reply write_ok st1, pending))"

text \<open>
  \<open>onPageChanged(oldKey, newKey)\<close>.  Its first statement is \<open>saveAnnotations()\<close>, which
  computes the page key from the location as it is now.  Then \<open>annotations =
  allAnnotationsCache[newKey] || []\<close>, or \<open>[]\<close> without a cache: when the bucket of
  \<open>newKey\<close> is the array that \<open>annotations\<close> already is, nothing changes; a bucket that is
  another array becomes the current one, shared with its own key; a missing bucket gives a
  new empty array, shared with no key.
\<close>

definition onPageChanged ::
  "page_key \<Rightarrow> page_key \<Rightarrow> cache_reply \<Rightarrow> bool \<Rightarrow> page_store \<times> storage
     \<Rightarrow> (page_store \<times> storage) \<times> page_key option"
where
  "onPageChanged oldKey newKey reply write_ok st =
     (let (st1, pending) = saveAnnotations write_ok st;
          (ps2, sto2) = cacheCurrentScreenshot (Some oldKey) reply write_ok st1;
          ps3 = (case allAnnotationsCache ps2 of
                   None \<Rightarrow> ps2\<lparr>annotations := [], shared_with := []\<rparr>
                 | Some c \<Rightarrow>
                     (case map_of c newKey of
                        None \<Rightarrow> ps2\<lparr>annotations := [], shared_with := []\<rparr>
                      | Some l \<Rightarrow>
                          if newKey \<in> set (shared_with ps2) then ps2
                          else ps2\<lparr>annotations := l, shared_with := [newKey]\<rparr>))
      in ((ps3, sto2), pending))"

text \<open>One tick of \<open>startNavigationWatcher\<close>; \<open>lastPageKey\<close> goes in and comes out.\<close>

definition navigation_tick ::
  "page_key \<Rightarrow> cache_reply \<Rightarrow> bool \<Rightarrow> page_store \<times> storage
     \<Rightarrow> ((page_store \<times> storage) \<times> page_key option) \<times> page_key"
where
  "navigation_tick lastPageKey reply write_ok = (\<lambda>(ps, sto).
     let currentKey = getPageKey ps
     in if currentKey \<noteq> lastPageKey
        then (onPageChanged lastPageKey currentKey reply write_ok (ps, sto), currentKey)
        else (((ps, sto), None), lastPageKey))"

text \<open>
  The scenario: a tab opens \<open>/r/1\<close> on an empty storage and loads; the user creates comments
  A and B; the application navigates to \<open>/r/2\<close> and the watcher notices; the user creates
  comment C.  Every capture for the screenshot cache succeeds.
\<close>

definition comment_A :: annotation where
  "comment_A = sample_annotation 170000000000000 ''A'' ''/r/1''"

definition comment_B :: annotation where
  "comment_B = sample_annotation 170000000010001 ''B'' ''/r/1''"

definition comment_C :: annotation where
  "comment_C = sample_annotation 170000000020002 ''C'' ''/r/2''"

definition shot_reply :: cache_reply where
  "shot_reply = Reply (Some ''data:image/png;base64,AAAA'')"

text \<open>The names of the pages in the scenario: the current page \<open>/r/2\<close> by its tab,
  \<open>Costs\<close>; the other by the last path segment of its first annotation's URL, \<open>1\<close>.\<close>

definition sample_label :: "page_key \<Rightarrow> annotation list \<Rightarrow> string" where
  "sample_label key pageAnnotations = (if key = ''/r/2'' then ''Costs'' else ''1'')"

definition two_comments :: "page_store \<times> storage" where
  "two_comments =
     (let st0 = load_completed (fresh_tab ''/r/1'', empty_storage);
          st1 = fst (add_comment comment_A shot_reply True st0)
      in fst (add_comment comment_B shot_reply True st1))"

definition after_navigation :: "page_store \<times> storage" where
  "after_navigation =
     (let (ps, sto) = two_comments
      in fst (fst (navigation_tick ''/r/1'' shot_reply True (navigate ''/r/2'' [] ps, sto))))"

definition three_comments :: "page_store \<times> storage" where
  "three_comments = fst (add_comment comment_C shot_reply True after_navigation)"

text \<open>The same comments with a reload of the page in place of the navigation: the tab on
  \<open>/r/2\<close> is a new one and loads the storage.\<close>

definition two_pages :: "page_store \<times> storage" where
  "two_pages =
     (let st = load_completed (fresh_tab ''/r/2'', snd two_comments)
      in fst (add_comment comment_C shot_reply True st))"

section \<open>Report canvas and crop (content.js and its revision)\<close>

text \<open>
  The host page as \<open>getReportCanvas\<close> reads it: \<open>document.querySelector\<close>, and the
  \<open>div\<close> elements in document order (\<open>document.querySelectorAll('div')\<close>), each element with
  its \<open>getBoundingClientRect()\<close>.  JS numbers are rationals here: the arithmetic below is
  exact arithmetic, not IEEE double arithmetic.
\<close>

record dom_rect =
  rect_left :: rat
  rect_top :: rat
  rect_width :: rat
  rect_height :: rat

record element =
  el_name :: string
  el_rect :: dom_rect

record document =
  querySelector :: "string \<Rightarrow> element option"
  divs :: "element list"

definition canvasSelectors :: "string list" where
  "canvasSelectors =
     [''div[class*='' @ [quote_char] @ ''explorationContainer'' @ [quote_char] @ '']'',
      ''div.explorationContainer'',
      ''visual-container-repeat'',
      ''explore-canvas-modern'',
      ''iframe[title*='' @ [quote_char] @ ''Report'' @ [quote_char] @ '']'',
      ''.reportCanvas'',
      ''.visualContainer'']"

text \<open>The loop over the selectors: the first element found is returned.\<close>

fun first_match :: "document \<Rightarrow> string list \<Rightarrow> element option" where
  "first_match doc [] = None"
| "first_match doc (selector # rest) =
     (case querySelector doc selector of
        Some e \<Rightarrow> Some e
      | None \<Rightarrow> first_match doc rest)"

definition area :: "element \<Rightarrow> rat" where
  "area e = rect_width (el_rect e) * rect_height (el_rect e)"

text \<open>\<open>getReportCanvas\<close> of src/content/content.js: after the selectors, the largest
  \<open>div\<close> wider than 800 and higher than 400 (\<open>reduce\<close> without a start value).\<close>

definition getReportCanvas :: "document \<Rightarrow> element option" where
  "getReportCanvas doc =
     (case first_match doc canvasSelectors of
        Some e \<Rightarrow> Some e
      | None \<Rightarrow>
          (let contentDivs =
                 filter (\<lambda>d. rect_width (el_rect d) > 800 \<and> rect_height (el_rect d) > 400) (divs doc)
           in case contentDivs of
                [] \<Rightarrow> None
              | d # ds \<Rightarrow>
                  Some (foldl (\<lambda>largest current.
                                 if area current > area largest then current else largest) d ds)))"

text \<open>\<open>getReportCanvas\<close> of the revision carried in REVIEW.md: the selectors only.\<close>

definition getReportCanvas_revised :: "document \<Rightarrow> element option" where
  "getReportCanvas_revised doc = first_match doc canvasSelectors"

text \<open>A report page on which no selector of the list matches, with a navigation pane and a
  smaller content area.\<close>

definition navigation_pane :: element where
  "navigation_pane =
     \<lparr>el_name = ''div.navigationPane'',
      el_rect = \<lparr>rect_left = 0, rect_top = 0, rect_width = 1280, rect_height = 900\<rparr>\<rparr>"

definition content_area :: element where
  "content_area =
     \<lparr>el_name = ''div.reportContent'',
      el_rect = \<lparr>rect_left = 240, rect_top = 60, rect_width = 1000, rect_height = 700\<rparr>\<rparr>"

definition unknown_markup :: document where
  "unknown_markup = \<lparr>querySelector = (\<lambda>selector. None), divs = [navigation_pane, content_area]\<rparr>"

text \<open>
  \<open>cropScreenshotToCanvas\<close>.  Inputs: whether the screenshot decodes, and then its pixel
  size; the target's bounding rectangle; the window's \<open>innerWidth\<close>, \<open>innerHeight\<close> and
  \<open>devicePixelRatio\<close>.  The result is the canvas size and the arguments of the one
  \<open>drawImage\<close> call, from which \<open>toDataURL\<close> encodes the returned image; on a decode error
  the screenshot is returned as it came.  Assigning a number to \<open>canvas.width\<close> drops its
  fraction.  A zero divisor makes the scale infinite or NaN in JS, and \<open>drawImage\<close> draws
  nothing when an argument is not finite: the canvas stays blank.
\<close>

record image =
  img_width :: rat
  img_height :: rat

datatype decode = Loaded image | DecodeError

record window =
  innerWidth :: rat
  innerHeight :: rat
  devicePixelRatio :: rat

record crop =
  canvas_width :: int
  canvas_height :: int
  sourceX :: rat
  sourceY :: rat
  sourceWidth :: rat
  sourceHeight :: rat
  destX :: rat
  destY :: rat
  destWidth :: rat
  destHeight :: rat

datatype crop_result = Cropped crop | Blank int int | Original

definition cropScreenshotToCanvas :: "decode \<Rightarrow> dom_rect \<Rightarrow> window \<Rightarrow> crop_result" where
  "cropScreenshotToCanvas d rect w =
     (case d of
        DecodeError \<Rightarrow> Original
      | Loaded img \<Rightarrow>
          let dpr = (if devicePixelRatio w = 0 then 1 else devicePixelRatio w);
              cw = \<lfloor>rect_width rect * dpr\<rfloor>;
              ch = \<lfloor>rect_height rect * dpr\<rfloor>
          in if innerWidth w * dpr = 0 \<or> innerHeight w * dpr = 0 then Blank cw ch
             else
               let scaleX = img_width img / (innerWidth w * dpr);
                   scaleY = img_height img / (innerHeight w * dpr)
               in Cropped
                    \<lparr>canvas_width = cw, canvas_height = ch,
                     sourceX = rect_left rect * dpr * scaleX,
                     sourceY = rect_top rect * dpr * scaleY,
                     sourceWidth = rect_width rect * dpr * scaleX,
                     sourceHeight = rect_height rect * dpr * scaleY,
                     destX = 0, destY = 0,
                     destWidth = of_int cw, destHeight = of_int ch\<rparr>)"

definition cropScreenshotToCanvas_revised :: "decode \<Rightarrow> dom_rect \<Rightarrow> window \<Rightarrow> crop_result" where
  "cropScreenshotToCanvas_revised d rect w =
     (case d of
        DecodeError \<Rightarrow> Original
      | Loaded img \<Rightarrow>
          let dpr = (if devicePixelRatio w = 0 then 1 else devicePixelRatio w);
              cw = \<lfloor>rect_width rect * dpr\<rfloor>;
              ch = \<lfloor>rect_height rect * dpr\<rfloor>
          in if innerWidth w = 0 \<or> innerHeight w = 0 then Blank cw ch
             else
               let scaleX = img_width img / innerWidth w;
                   scaleY = img_height img / innerHeight w
               in Cropped
                    \<lparr>canvas_width = cw, canvas_height = ch,
                     sourceX = rect_left rect * scaleX,
                     sourceY = rect_top rect * scaleY,
                     sourceWidth = rect_width rect * scaleX,
                     sourceHeight = rect_height rect * scaleY,
                     destX = 0, destY = 0,
                     destWidth = of_int cw, destHeight = of_int ch\<rparr>)"

text \<open>The rectangle of a target that spans the viewport.\<close>

definition viewport_rect :: "window \<Rightarrow> dom_rect" where
  "viewport_rect w =
     \<lparr>rect_left = 0, rect_top = 0, rect_width = innerWidth w, rect_height = innerHeight w\<rparr>"

section \<open>Single-page export (content.js, \<open>generatePptx\<close>, \<open>generatePdf\<close>)\<close>

text \<open>
  The comment list handed to both generators is \<open>annotations.map((annotation, index) =>
  ({ number: index + 1, comment, date, tool, color }))\<close>.
\<close>

record export_comment =
  c_number :: nat
  c_comment :: string
  c_date :: string
  c_tool :: string
  c_color :: string

definition export_comments :: "(string \<Rightarrow> string) \<Rightarrow> annotation list \<Rightarrow> export_comment list" where
  "export_comments toLocaleDateString anns =
     map (\<lambda>(index, a).
            \<lparr>c_number = index + 1, c_comment = ann_comment a,
             c_date = toLocaleDateString (ann_timestamp a),
             c_tool = (if ann_tool a = [] then ''rectangle'' else ann_tool a),
             c_color = (if ann_color a = [] then ''#0078d4'' else ann_color a)\<rparr>)
       (enumerate 0 anns)"


text \<open>
  Both generators fit the image into the box of the screenshot with the same statements:
  \<open>imgAspect = naturalWidth / naturalHeight\<close>, \<open>boxAspect = screenshotW / contentH\<close>, then
  width and height by the comparison of the two, and \<open>imgY = contentY + (contentH - imgH) /
  2\<close>.  The result is \<open>(imgY, imgW, imgH)\<close>.  A natural height of 0 makes \<open>imgAspect\<close>
  infinite, or not a number when the width is 0 too; then the comparison is false and the
  width \<open>contentH * imgAspect\<close> is not a number.
\<close>

datatype extent = Finite rat | NotANumber

definition fit_image :: "rat \<Rightarrow> rat \<Rightarrow> rat \<Rightarrow> nat \<Rightarrow> nat \<Rightarrow> rat \<times> extent \<times> rat" where
  "fit_image screenshotW contentH contentY naturalWidth naturalHeight =
     (if naturalHeight = 0
      then (if naturalWidth = 0
            then (contentY + (contentH - contentH) / 2, NotANumber, contentH)
            else (contentY + (contentH - 0) / 2, Finite screenshotW, 0))
      else
        let imgAspect = of_nat naturalWidth / of_nat naturalHeight;
            boxAspect = screenshotW / contentH
        in if imgAspect > boxAspect
           then (contentY + (contentH - screenshotW / imgAspect) / 2,
                 Finite screenshotW, screenshotW / imgAspect)
           else (contentY + (contentH - contentH) / 2,
                 Finite (contentH * imgAspect), contentH))"








text \<open>
  The PDF: a document is its pages, a page the things drawn on it.  The vertical positions
  of the texts and badges are whole millimetres; the image and the placeholder text, which
  is put at the middle height of the box, have positions of their own.  \<open>splitTextToSize\<close>
  is jsPDF's wrapping of a comment to the width of the column, a parameter.
\<close>

datatype pdf_item =
    PdfText "string list" int
  | PdfCircle int
  | PdfImage rat extent rat
  | PdfPlaceholder string rat

type_synonym pdf_page = "pdf_item list"


record pdf_state =
  earlier_pages :: "pdf_page list"
  page :: pdf_page
  pdf_currentY :: int













section \<open>Pending capture token\<close>

text \<open>
  C10.  The worker holds one token for the whole browser, not one per tab: after
  \<open>prepareCapture\<close> from any tab the in-memory token, the session record and the badge are
  those of that tab whatever was there before, and \<open>cancelCapture\<close> from any sender clears
  token, session record and badge whichever tab had armed the capture.
\<close>

theorem single_global_token:
  "\<exists>st'. onMessage PrepareCapture (Some t) oc st = Inr (st', Some Ok) \<and>
     pendingCapture st' = Some (tab_ident t) \<and>
     session_pendingCapture st' = Some (tab_ident t) \<and>
     badgeText st' = camera_badge \<and>
     (\<exists>st''. onMessage CancelCapture sender oc' st' = Inr (st'', Some Ok) \<and>
        pendingCapture st'' = None \<and> session_pendingCapture st'' = None \<and> badgeText st'' = [])"
  by (simp add: onMessage_def setPendingCapture_def clearPendingCapture_def)

text \<open>
  C3.  Arm a capture for tab \<open>t\<close>, restart the worker, click the icon in \<open>t\<close>: the click
  takes the slow path, finds the session record, and runs the capture exactly as if the worker
  had stayed alive, sending the \<open>screenshotResult\<close> to \<open>t\<close>.  After a restart with no session
  record for the clicking tab, the click sends \<open>toggleSidebar\<close> to that tab and changes
  nothing else.
\<close>

theorem restart_rederives_token:
  "onClicked t oc (restart (setPendingCapture (tab_ident t) st)) =
     captureAndSend t oc (setPendingCapture (tab_ident t) st) \<and>
   snd (onClicked t oc (restart (setPendingCapture (tab_ident t) st))) =
     [(tab_ident t, HideForCapture), (tab_ident t, screenshotResult oc)] \<and>
   (session_pendingCapture st \<noteq> Some (tab_ident t) \<longrightarrow>
      onClicked t oc (restart st) = (restart st, [(tab_ident t, ToggleSidebar)]))"
  by (simp add: onClicked_def restart_def setPendingCapture_def captureAndSend_def
      clearPendingCapture_def)

theorem restart_rederives_token_witness:
  "session_pendingCapture
      \<lparr>pendingCapture = Some 3, session_pendingCapture = Some 3, badgeText = camera_badge\<rparr>
     \<noteq> Some (tab_ident \<lparr>tab_ident = 7, windowId = 1\<rparr>) \<and>
   onClicked \<lparr>tab_ident = 7, windowId = 1\<rparr> (Captured ''data:png'')
     (restart \<lparr>pendingCapture = Some 3, session_pendingCapture = Some 3, badgeText = camera_badge\<rparr>)
   = (\<lparr>pendingCapture = None, session_pendingCapture = Some 3, badgeText = camera_badge\<rparr>,
      [(7, ToggleSidebar)])"
  using restart_rederives_token
    [of "\<lparr>tab_ident = 7, windowId = 1\<rparr>" "Captured ''data:png''"
        "\<lparr>pendingCapture = Some 3, session_pendingCapture = Some 3, badgeText = camera_badge\<rparr>"]
  by (simp add: restart_def)

section \<open>Capture handshake\<close>

text \<open>
  C2.  Whatever the states of worker and page before the export, and whether or not the
  worker restarts while the capture is armed, the promise returned by
  \<open>waitForScreenshotOrCancel\<close> is settled after each terminal outcome: with the message
  carrying the data URL on success, with the message carrying the error text on a capture
  error, with \<open>null\<close> on cancellation, also when the cancellation can no longer be sent to
  the worker.  When it can, the worker's token is gone after each of the three.
\<close>

theorem handshake_resolves:
  "awaited (snd (handshake t restarted ctx_ok fin bg ps)) = Resolved (expected_result fin) \<and>
   awaited (snd (handshake t restarted ctx_ok fin bg ps)) \<noteq> Pending \<and>
   pendingCapture (fst (handshake t restarted True fin bg ps)) = None \<and>
   session_pendingCapture (fst (handshake t restarted True fin bg ps)) = None"
  by (cases fin)
     (simp_all add: handshake_def armed_def onMessage_def onClicked_def restart_def
        setPendingCapture_def clearPendingCapture_def captureAndSend_def screenshotResult_def
        deliver_def page_onMessage_def resolver_call_def cancel_click_def
        waitForScreenshotOrCancel_def resolve_def expected_result_def Let_def)


section \<open>Annotation identifiers\<close>

lemma generate_ids_length: "length (generate_ids c ts) = length ts"
  by (induction ts arbitrary: c) (simp_all add: generateAnnotationId_def)

lemma generate_ids_nth:
  "i < length ts \<Longrightarrow> generate_ids c ts ! i = ts ! i * 100 + (c + i) mod 100"
proof (induction ts arbitrary: c i)
  case Nil
  then show ?case by simp
next
  case (Cons now ts)
  show ?case
  proof (cases i)
    case 0
    then show ?thesis by (simp add: generateAnnotationId_def)
  next
    case (Suc j)
    with Cons.prems have "j < length ts" by simp
    from Cons.IH [OF this, of "Suc c"] Suc show ?thesis
      by (simp add: generateAnnotationId_def)
  qed
qed

text \<open>
  C6, as the code has it.  Along any run of calls whose clock readings do not decrease,
  the identifiers are strictly increasing, hence pairwise different, provided that no two
  consecutive calls fall into the same clock tick while the counter passes from \<open>99\<close> to
  \<open>0\<close> modulo \<open>100\<close>.
\<close>

theorem ids_strictly_increasing:
  assumes mono: "sorted ts"
    and nowrap: "\<forall>i. Suc i < length ts \<longrightarrow> ts ! i = ts ! Suc i \<longrightarrow> (c + i) mod 100 \<noteq> 99"
  shows "sorted_wrt (<) (generate_ids c ts) \<and> distinct (generate_ids c ts)"
proof -
  have step: "generate_ids c ts ! i < generate_ids c ts ! Suc i" if i: "Suc i < length ts" for i
  proof -
    have le: "ts ! i \<le> ts ! Suc i"
      using mono i by (simp add: sorted_iff_nth_mono)
    have a: "generate_ids c ts ! i = ts ! i * 100 + (c + i) mod 100"
      using i by (simp add: generate_ids_nth)
    have b: "generate_ids c ts ! Suc i = ts ! Suc i * 100 + (c + Suc i) mod 100"
      using i by (simp add: generate_ids_nth)
    show ?thesis
    proof (cases "ts ! i = ts ! Suc i")
      case True
      with nowrap i have "(c + i) mod 100 \<noteq> 99" by blast
      moreover have "(c + i) mod 100 < 100" by simp
      ultimately have "(c + i) mod 100 < 99" by linarith
      then have "(c + Suc i) mod 100 = (c + i) mod 100 + 1"
        by (simp add: mod_Suc)
      with a b True show ?thesis by simp
    next
      case False
      with le have "ts ! i + 1 \<le> ts ! Suc i" by simp
      then have "(ts ! i + 1) * 100 \<le> ts ! Suc i * 100" by (rule mult_le_mono1)
      moreover have "(c + i) mod 100 < 100" by simp
      ultimately show ?thesis using a b by simp
    qed
  qed
  have "sorted_wrt (<) (generate_ids c ts)"
    by (simp add: sorted_wrt_iff_nth_Suc_transp generate_ids_length step)
  then show ?thesis by (simp add: strict_sorted_iff)
qed

theorem ids_strictly_increasing_witness:
  "sorted [5, 5, 6 :: nat] \<and>
   generate_ids 98 [5, 5, 6] = [598, 599, 600] \<and>
   sorted_wrt (<) (generate_ids 98 [5, 5, 6]) \<and> distinct (generate_ids 98 [5, 5, 6])"
proof -
  have m: "sorted [5, 5, 6 :: nat]" by simp
  have w: "\<forall>i. Suc i < length [5, 5, 6 :: nat] \<longrightarrow>
             [5, 5, 6 :: nat] ! i = [5, 5, 6] ! Suc i \<longrightarrow> (98 + i) mod 100 \<noteq> 99"
  proof (intro allI impI)
    fix i :: nat
    assume "Suc i < length [5, 5, 6 :: nat]" and e: "[5, 5, 6 :: nat] ! i = [5, 5, 6] ! Suc i"
    then have "i = 0 \<or> i = 1" by auto
    with e show "(98 + i) mod 100 \<noteq> 99" by auto
  qed
  have v: "generate_ids 98 [5, 5, 6] = [598, 599, 600]"
    by (simp add: generateAnnotationId_def)
  from ids_strictly_increasing [OF m w] m v show ?thesis by simp
qed

lemma ids_wrap_not_increasing:
  "\<not> sorted_wrt (<) (generate_ids 0 (replicate 99 1699999999000 @ [1700000000000, 1700000000000]))"
proof
  let ?ts = "replicate 99 1699999999000 @ [1700000000000, 1700000000000 :: nat]"
  assume s: "sorted_wrt (<) (generate_ids 0 ?ts)"
  have "generate_ids 0 ?ts ! 99 < generate_ids 0 ?ts ! 100"
    using s by (rule sorted_wrt_nth_less) (simp_all add: generate_ids_length)
  moreover have "generate_ids 0 ?ts ! 99 = ?ts ! 99 * 100 + (0 + 99) mod 100"
    by (rule generate_ids_nth) simp
  moreover have "generate_ids 0 ?ts ! 100 = ?ts ! 100 * 100 + (0 + 100) mod 100"
    by (rule generate_ids_nth) simp
  moreover have "?ts ! 99 = 1700000000000" "?ts ! 100 = 1700000000000"
    by (simp_all add: nth_append)
  ultimately show False by simp
qed

lemma ids_wrap_collision:
  "\<not> distinct (generate_ids 0 (replicate 101 1700000000000))"
proof
  let ?ts = "replicate 101 (1700000000000 :: nat)"
  assume d: "distinct (generate_ids 0 ?ts)"
  have "generate_ids 0 ?ts ! 0 = ?ts ! 0 * 100 + (0 + 0) mod 100"
    by (rule generate_ids_nth) simp
  moreover have "generate_ids 0 ?ts ! 100 = ?ts ! 100 * 100 + (0 + 100) mod 100"
    by (rule generate_ids_nth) simp
  ultimately have "generate_ids 0 ?ts ! 0 = generate_ids 0 ?ts ! 100" by simp
  with d show False
    by (simp add: nth_eq_iff_index_eq generate_ids_length)
qed

text \<open>
  The claim as written fails.  A session that has made ninety-nine calls makes two more
  within one clock tick: they return \<open>100 t + 99\<close> and then \<open>100 t\<close>, so the sequence is not
  increasing.  And a hundred and one calls within one tick return the first identifier again.
\<close>

theorem ids_wrap_counterexample:
  "generate_ids 99 [1700000000000, 1700000000000] = [170000000000099, 170000000000000] \<and>
   \<not> sorted_wrt (<)
       (generate_ids 0 (replicate 99 1699999999000 @ [1700000000000, 1700000000000])) \<and>
   \<not> distinct (generate_ids 0 (replicate 101 1700000000000))"
  using ids_wrap_not_increasing ids_wrap_collision
  by (simp add: generateAnnotationId_def)

section \<open>Annotation store\<close>





lemmas store_simps = loadAnnotations_def loadAnnotations_callback_def load_completed_def
  storage_get_def saveAnnotations_def saveAnnotations_callback_def push_annotation_def
  fresh_tab_def empty_storage_def getPageKey_def or_empty_def Let_def









text \<open>
  What the callback stores under the page key is the list at the time of the callback.  A
  save while the initial load is in flight: the load's callback runs first and replaces
  \<open>annotations\<close> by the stored list of the page, here the empty one; the save's callback
  then stores that list, and the comment the save was called for is in neither the page's
  state nor the storage.
\<close>

lemma save_during_load_before_val:
  "save_during_load_before =
     (\<lparr>allAnnotationsCache = None,
       annotations = [sample_annotation 170000000000000 ''A'' ''/r/1''],
       shared_with = [], pathname = ''/r/1'', search = [], screenshotCache = []\<rparr>,
      empty_storage)"
  by (simp add: save_during_load_before_def store_simps)

lemma save_during_load_loses_comment:
  "annotations (fst save_during_load_before) = [sample_annotation 170000000000000 ''A'' ''/r/1''] \<and>
   annotations (fst save_during_load) = [] \<and>
   stored_bucket (snd save_during_load) ''/r/1'' = Some []"
  by (simp add: save_during_load_def save_during_load_before_val stored_bucket_def store_simps)

lemma single_tab_val:
  "single_tab =
     (\<lparr>allAnnotationsCache =
         Some [(''/r/1'', [sample_annotation 170000000000000 ''A'' ''/r/1'',
                           sample_annotation 170000000010001 ''B'' ''/r/2''])],
       annotations = [sample_annotation 170000000000000 ''A'' ''/r/1'',
                      sample_annotation 170000000010001 ''B'' ''/r/2''],
       shared_with = [''/r/1''], pathname = ''/r/2'', search = [], screenshotCache = []\<rparr>,
      \<lparr>st_annotations = Some [(''/r/1'', [sample_annotation 170000000000000 ''A'' ''/r/1''])],
       st_screenshotCache = None\<rparr>)"
  by (simp add: single_tab_def navigate_def store_simps)

text \<open>
  The bucket of a page other than the current one also changes in one tab, through the
  shared array: after a navigation inside the application the list of \<open>/r/1\<close> is still the
  current list, a comment created on \<open>/r/2\<close> is pushed onto it, and the save on \<open>/r/2\<close>
  persists the grown bucket of \<open>/r/1\<close> as well.
\<close>

lemma save_after_navigation:
  "stored_bucket (snd single_tab) ''/r/1'' = Some [sample_annotation 170000000000000 ''A'' ''/r/1''] \<and>
   getPageKey (fst single_tab) = ''/r/2'' \<and>
   stored_bucket (snd (fst (saveAnnotations True single_tab))) ''/r/1''
     = Some [sample_annotation 170000000000000 ''A'' ''/r/1'',
             sample_annotation 170000000010001 ''B'' ''/r/2'']"
  by (simp add: single_tab_val stored_bucket_def store_simps)

section \<open>Spreadsheet export\<close>

lemma page_rows_eq:
  "page_rows fmt name anns g =
     (map (\<lambda>(i, a). [Num i, Str name, Str (fmt (ann_timestamp a)), Str (ann_comment a)])
        (enumerate g anns),
      g + length anns)"
  by (induction anns arbitrary: g) simp_all

lemma enumerate_map_snd:
  "enumerate g (map f xs) = map (\<lambda>(i, x). (i, f x)) (enumerate g xs)"
  by (induction xs arbitrary: g) simp_all

lemma allRows_eq:
  "allRows fmt pages g =
     map (\<lambda>(i, name, a). [Num i, Str name, Str (fmt (ann_timestamp a)), Str (ann_comment a)])
       (enumerate g (concat (map (\<lambda>p. map (Pair (page_name p)) (page_annotations p)) pages)))"
proof (induction pages arbitrary: g)
  case Nil
  then show ?case by simp
next
  case (Cons p pages)
  show ?case
    by (simp add: page_rows_eq Cons.IH enumerate_append_eq enumerate_map_snd split_def o_def
        add.commute)
qed


lemma replace_quotes_rest:
  "filter (\<lambda>c. c \<noteq> quote_char) (replace_quotes s) = filter (\<lambda>c. c \<noteq> quote_char) s"
  by (induction s) (simp_all add: replace_quotes_def)

lemma replace_quotes_count:
  "count_list (replace_quotes s) quote_char = 2 * count_list s quote_char"
  by (induction s) (simp_all add: replace_quotes_def)

lemma string_of_nat_digits: "set (string_of_nat n) \<subseteq> set ''0123456789''"
proof (induction n rule: string_of_nat.induct)
  case (1 n)
  have d: "''0123456789'' ! k \<in> set ''0123456789''" if "k < 10" for k :: nat
    by (rule nth_mem) (use that in simp)
  show ?case
  proof (cases "n < 10")
    case True
    then show ?thesis using d [of n] by (subst string_of_nat.simps) simp
  next
    case False
    have "n mod 10 < 10" by simp
    from d [OF this] 1 False show ?thesis
      by (subst string_of_nat.simps) simp
  qed
qed

lemma csv_field_number: "csv_field (cell_string (Num n)) = string_of_nat n"
proof -
  have "CHR '','' \<notin> set ''0123456789''" "quote_char \<notin> set ''0123456789''"
    "newline_char \<notin> set ''0123456789''"
    by (simp_all add: quote_char_def newline_char_def)
  with string_of_nat_digits [of n] show ?thesis
    by (auto simp: csv_field_def cell_string_def)
qed


lemma csv_text_lines:
  "buildCsvRows fmt pages =
     join [newline_char]
       (''No,Page Name,Date,Comment'' #
        map (\<lambda>row. join '','' (map (\<lambda>c. csv_field (cell_string c)) row)) (allRows fmt pages 1))"
  by (simp add: buildCsvRows_def headers_def)

lemma string_of_nat_small:
  "string_of_nat (Suc 0) = ''1''"
  "string_of_nat (Suc (Suc 0)) = ''2''"
  "string_of_nat (Suc (Suc (Suc 0))) = ''3''"
  "string_of_nat (Suc (Suc (Suc (Suc 0)))) = ''4''"
  "string_of_nat (Suc (Suc (Suc (Suc (Suc 0))))) = ''5''"
  "string_of_nat (Suc (Suc (Suc (Suc (Suc (Suc 0)))))) = ''6''"
  by (simp_all add: string_of_nat.simps)

text \<open>A text as it is written out: the page name with a comma, and a comment with double
  quotes, are put between double quotes.\<close>

lemma csv_scenario_text:
  "buildCsvRows (\<lambda>t. ''1/1/2026'')
     [\<lparr>page_name = ''Sales, EU'',
       page_annotations = [sample_annotation 170000000000000 ''A'' ''/r/1'',
                           sample_annotation 170000000010001 (''say '' @ [quote_char] @ ''B'' @ [quote_char]) ''/r/1'']\<rparr>,
      \<lparr>page_name = ''Costs'',
       page_annotations = [sample_annotation 170000000020002 ''C'' ''/r/2'']\<rparr>] =
   ''No,Page Name,Date,Comment'' @ [newline_char] @
   ''1,'' @ [quote_char] @ ''Sales, EU'' @ [quote_char] @ '',1/1/2026,A'' @ [newline_char] @
   ''2,'' @ [quote_char] @ ''Sales, EU'' @ [quote_char] @ '',1/1/2026,'' @
      [quote_char] @ ''say '' @ [quote_char, quote_char] @ ''B'' @ [quote_char, quote_char] @ [quote_char] @
      [newline_char] @
   ''3,Costs,1/1/2026,C''"
  by (simp add: buildCsvRows_def headers_def cell_string_def csv_field_def replace_quotes_def
      string_of_nat_small sample_annotation_def quote_char_def newline_char_def)

lemmas nav_simps = add_comment_def onPageChanged_def navigation_tick_def navigate_def
  cacheCurrentScreenshot_def shot_reply_def

lemma two_comments_val:
  "two_comments =
     (\<lparr>allAnnotationsCache = Some [(''/r/1'', [comment_A, comment_B])],
       annotations = [comment_A, comment_B],
       shared_with = [''/r/1''], pathname = ''/r/1'', search = [],
       screenshotCache = [(''/r/1'', ''data:image/png;base64,AAAA'')]\<rparr>,
      \<lparr>st_annotations = Some [(''/r/1'', [comment_A, comment_B])],
       st_screenshotCache = Some [(''/r/1'', ''data:image/png;base64,AAAA'')]\<rparr>)"
  by (simp add: two_comments_def nav_simps store_simps)

text \<open>
  When the watcher notices the navigation to \<open>/r/2\<close>, \<open>onPageChanged\<close> saves (commented
  "save current page's annotations under the old key").  The location has changed by then,
  so the list of \<open>/r/1\<close> is stored under \<open>/r/2\<close> too and stays the current list.
\<close>

lemma after_navigation_val:
  "after_navigation =
     (\<lparr>allAnnotationsCache =
         Some [(''/r/1'', [comment_A, comment_B]), (''/r/2'', [comment_A, comment_B])],
       annotations = [comment_A, comment_B],
       shared_with = [''/r/2'', ''/r/1''], pathname = ''/r/2'', search = [],
       screenshotCache = [(''/r/1'', ''data:image/png;base64,AAAA'')]\<rparr>,
      \<lparr>st_annotations =
         Some [(''/r/1'', [comment_A, comment_B]), (''/r/2'', [comment_A, comment_B])],
       st_screenshotCache = Some [(''/r/1'', ''data:image/png;base64,AAAA'')]\<rparr>)"
  by (simp add: after_navigation_def two_comments_val nav_simps store_simps)

lemma three_comments_val:
  "three_comments =
     (\<lparr>allAnnotationsCache =
         Some [(''/r/1'', [comment_A, comment_B, comment_C]),
               (''/r/2'', [comment_A, comment_B, comment_C])],
       annotations = [comment_A, comment_B, comment_C],
       shared_with = [''/r/2'', ''/r/1''], pathname = ''/r/2'', search = [],
       screenshotCache = [(''/r/1'', ''data:image/png;base64,AAAA''),
                          (''/r/2'', ''data:image/png;base64,AAAA'')]\<rparr>,
      \<lparr>st_annotations =
         Some [(''/r/1'', [comment_A, comment_B, comment_C]),
               (''/r/2'', [comment_A, comment_B, comment_C])],
       st_screenshotCache = Some [(''/r/1'', ''data:image/png;base64,AAAA''),
                                   (''/r/2'', ''data:image/png;base64,AAAA'')]\<rparr>)"
  by (simp add: three_comments_def after_navigation_val nav_simps store_simps)

lemma two_pages_val:
  "two_pages =
     (\<lparr>allAnnotationsCache =
         Some [(''/r/1'', [comment_A, comment_B]), (''/r/2'', [comment_C])],
       annotations = [comment_C],
       shared_with = [''/r/2''], pathname = ''/r/2'', search = [],
       screenshotCache = [(''/r/2'', ''data:image/png;base64,AAAA'')]\<rparr>,
      \<lparr>st_annotations =
         Some [(''/r/1'', [comment_A, comment_B]), (''/r/2'', [comment_C])],
       st_screenshotCache = Some [(''/r/2'', ''data:image/png;base64,AAAA'')]\<rparr>)"
  by (simp add: two_pages_def two_comments_val nav_simps store_simps)

lemma comment_fields:
  "ann_comment comment_A = ''A''" "ann_comment comment_B = ''B''" "ann_comment comment_C = ''C''"
  "ann_timestamp comment_A = ''2026-01-01T00:00:00.000Z''"
  "ann_timestamp comment_B = ''2026-01-01T00:00:00.000Z''"
  "ann_timestamp comment_C = ''2026-01-01T00:00:00.000Z''"
  by (simp_all add: comment_A_def comment_B_def comment_C_def sample_annotation_def)

lemma export_three_comments:
  "exportAnnotations label fmt current (Some All) (fst three_comments) =
     Some (buildCsvRows fmt
       [\<lparr>page_name = label ''/r/1'' [comment_A, comment_B, comment_C],
         page_annotations = [comment_A, comment_B, comment_C]\<rparr>,
        \<lparr>page_name = label ''/r/2'' [comment_A, comment_B, comment_C],
         page_annotations = [comment_A, comment_B, comment_C]\<rparr>])"
  by (simp add: three_comments_val exportAnnotations_def showScopeDialog_def getAnnotatedPages_def
      or_empty_def)

lemma six_rows:
  "allRows fmt
     [\<lparr>page_name = l1, page_annotations = [comment_A, comment_B, comment_C]\<rparr>,
      \<lparr>page_name = l2, page_annotations = [comment_A, comment_B, comment_C]\<rparr>] 1 =
   [ [Num 1, Str l1, Str (fmt ''2026-01-01T00:00:00.000Z''), Str ''A''],
     [Num 2, Str l1, Str (fmt ''2026-01-01T00:00:00.000Z''), Str ''B''],
     [Num 3, Str l1, Str (fmt ''2026-01-01T00:00:00.000Z''), Str ''C''],
     [Num 4, Str l2, Str (fmt ''2026-01-01T00:00:00.000Z''), Str ''A''],
     [Num 5, Str l2, Str (fmt ''2026-01-01T00:00:00.000Z''), Str ''B''],
     [Num 6, Str l2, Str (fmt ''2026-01-01T00:00:00.000Z''), Str ''C''] ]"
  by (simp add: comment_fields)

lemma six_rows_text:
  "buildCsvRows (\<lambda>t. ''1/1/2026'')
     [\<lparr>page_name = ''1'', page_annotations = [comment_A, comment_B, comment_C]\<rparr>,
      \<lparr>page_name = ''Costs'', page_annotations = [comment_A, comment_B, comment_C]\<rparr>] =
   ''No,Page Name,Date,Comment'' @ [newline_char] @
   ''1,1,1/1/2026,A'' @ [newline_char] @
   ''2,1,1/1/2026,B'' @ [newline_char] @
   ''3,1,1/1/2026,C'' @ [newline_char] @
   ''4,Costs,1/1/2026,A'' @ [newline_char] @
   ''5,Costs,1/1/2026,B'' @ [newline_char] @
   ''6,Costs,1/1/2026,C''"
  by (simp add: buildCsvRows_def headers_def cell_string_def csv_field_def replace_quotes_def
      string_of_nat_small comment_fields quote_char_def newline_char_def)

text \<open>
  C9.  The flattening and the quoting are as claimed: one row per annotation, page by page
  and in list order, numbered by one counter from 1 (\<open>allRows_eq\<close>), a field with a comma, a
  double quote or a newline between double quotes with its double quotes doubled
  (\<open>csv_field_def\<close>, \<open>replace_quotes_rest\<close>, \<open>replace_quotes_count\<close>).  The scenario is not:
  after comments A and B on \<open>/r/1\<close>, a navigation to \<open>/r/2\<close> and comment C there, the store
  holds A, B and C under both page keys, and the export of all pages has six rows: 1, 2, 3
  with the name of the first page and 4, 5, 6 with the name of the second, each page
  carrying A, B and C.  With the page named by the last path segment of its first
  annotation's URL (\<open>1\<close>) when it is not the current one, and the current page's tab being
  \<open>Costs\<close>, the text is written out below.
\<close>

theorem navigation_export_six_rows:
  "st_annotations (snd three_comments) =
     Some [(''/r/1'', [comment_A, comment_B, comment_C]),
           (''/r/2'', [comment_A, comment_B, comment_C])] \<and>
   allAnnotationsCache (fst three_comments) = st_annotations (snd three_comments) \<and>
   exportAnnotations label fmt current (Some All) (fst three_comments) =
     Some (buildCsvRows fmt
       [\<lparr>page_name = label ''/r/1'' [comment_A, comment_B, comment_C],
         page_annotations = [comment_A, comment_B, comment_C]\<rparr>,
        \<lparr>page_name = label ''/r/2'' [comment_A, comment_B, comment_C],
         page_annotations = [comment_A, comment_B, comment_C]\<rparr>]) \<and>
   allRows fmt
     [\<lparr>page_name = l1, page_annotations = [comment_A, comment_B, comment_C]\<rparr>,
      \<lparr>page_name = l2, page_annotations = [comment_A, comment_B, comment_C]\<rparr>] 1 =
   [ [Num 1, Str l1, Str (fmt ''2026-01-01T00:00:00.000Z''), Str ''A''],
     [Num 2, Str l1, Str (fmt ''2026-01-01T00:00:00.000Z''), Str ''B''],
     [Num 3, Str l1, Str (fmt ''2026-01-01T00:00:00.000Z''), Str ''C''],
     [Num 4, Str l2, Str (fmt ''2026-01-01T00:00:00.000Z''), Str ''A''],
     [Num 5, Str l2, Str (fmt ''2026-01-01T00:00:00.000Z''), Str ''B''],
     [Num 6, Str l2, Str (fmt ''2026-01-01T00:00:00.000Z''), Str ''C''] ] \<and>
   exportAnnotations sample_label (\<lambda>t. ''1/1/2026'') ''Costs'' (Some All) (fst three_comments) =
     Some (''No,Page Name,Date,Comment'' @ [newline_char] @
           ''1,1,1/1/2026,A'' @ [newline_char] @
           ''2,1,1/1/2026,B'' @ [newline_char] @
           ''3,1,1/1/2026,C'' @ [newline_char] @
           ''4,Costs,1/1/2026,A'' @ [newline_char] @
           ''5,Costs,1/1/2026,B'' @ [newline_char] @
           ''6,Costs,1/1/2026,C'')"
proof (intro conjI)
  show "st_annotations (snd three_comments) =
     Some [(''/r/1'', [comment_A, comment_B, comment_C]),
           (''/r/2'', [comment_A, comment_B, comment_C])]"
    by (simp add: three_comments_val)
  show "allAnnotationsCache (fst three_comments) = st_annotations (snd three_comments)"
    by (simp add: three_comments_val)
  show "exportAnnotations label fmt current (Some All) (fst three_comments) =
     Some (buildCsvRows fmt
       [\<lparr>page_name = label ''/r/1'' [comment_A, comment_B, comment_C],
         page_annotations = [comment_A, comment_B, comment_C]\<rparr>,
        \<lparr>page_name = label ''/r/2'' [comment_A, comment_B, comment_C],
         page_annotations = [comment_A, comment_B, comment_C]\<rparr>])"
    by (rule export_three_comments)
  show "allRows fmt
     [\<lparr>page_name = l1, page_annotations = [comment_A, comment_B, comment_C]\<rparr>,
      \<lparr>page_name = l2, page_annotations = [comment_A, comment_B, comment_C]\<rparr>] 1 =
   [ [Num 1, Str l1, Str (fmt ''2026-01-01T00:00:00.000Z''), Str ''A''],
     [Num 2, Str l1, Str (fmt ''2026-01-01T00:00:00.000Z''), Str ''B''],
     [Num 3, Str l1, Str (fmt ''2026-01-01T00:00:00.000Z''), Str ''C''],
     [Num 4, Str l2, Str (fmt ''2026-01-01T00:00:00.000Z''), Str ''A''],
     [Num 5, Str l2, Str (fmt ''2026-01-01T00:00:00.000Z''), Str ''B''],
     [Num 6, Str l2, Str (fmt ''2026-01-01T00:00:00.000Z''), Str ''C''] ]"
    by (rule six_rows)
  show "exportAnnotations sample_label (\<lambda>t. ''1/1/2026'') ''Costs'' (Some All) (fst three_comments) =
     Some (''No,Page Name,Date,Comment'' @ [newline_char] @
           ''1,1,1/1/2026,A'' @ [newline_char] @
           ''2,1,1/1/2026,B'' @ [newline_char] @
           ''3,1,1/1/2026,C'' @ [newline_char] @
           ''4,Costs,1/1/2026,A'' @ [newline_char] @
           ''5,Costs,1/1/2026,B'' @ [newline_char] @
           ''6,Costs,1/1/2026,C'')"
    unfolding export_three_comments
    by (simp add: sample_label_def six_rows_text)
qed

text \<open>With a reload of the page in place of the navigation the store is the one the
  scenario describes, and the export has the three rows: 1 and 2 with the first page's
  name, 3 with the second page's.\<close>

lemma csv_scenario_after_reload:
  "exportAnnotations label fmt current (Some All) (fst two_pages) =
     Some (buildCsvRows fmt
       [\<lparr>page_name = label ''/r/1'' [comment_A, comment_B],
         page_annotations = [comment_A, comment_B]\<rparr>,
        \<lparr>page_name = label ''/r/2'' [comment_C],
         page_annotations = [comment_C]\<rparr>]) \<and>
   allRows fmt
     [\<lparr>page_name = l1, page_annotations = [comment_A, comment_B]\<rparr>,
      \<lparr>page_name = l2, page_annotations = [comment_C]\<rparr>] 1 =
   [ [Num 1, Str l1, Str (fmt ''2026-01-01T00:00:00.000Z''), Str ''A''],
     [Num 2, Str l1, Str (fmt ''2026-01-01T00:00:00.000Z''), Str ''B''],
     [Num 3, Str l2, Str (fmt ''2026-01-01T00:00:00.000Z''), Str ''C''] ]"
  by (simp add: two_pages_val exportAnnotations_def showScopeDialog_def getAnnotatedPages_def
      or_empty_def comment_fields)


section \<open>Screenshot cache\<close>

lemma cached_pages_20:
  "cached_pages 20 = map (\<lambda>k. (k, ''data:image/png;base64,AAAA''))
     [''/r/0'', ''/r/1'', ''/r/2'', ''/r/3'', ''/r/4'', ''/r/5'', ''/r/6'', ''/r/7'', ''/r/8'', ''/r/9'',
      ''/r/10'', ''/r/11'', ''/r/12'', ''/r/13'', ''/r/14'', ''/r/15'', ''/r/16'', ''/r/17'', ''/r/18'',
      ''/r/19'']"
  by code_simp


lemma update_length_le: "length (AList.update k v al) \<le> Suc (length al)"
  by (induction al) simp_all

lemma delete_first_key_shorter:
  "al \<noteq> [] \<Longrightarrow> length (AList.delete (map fst al ! 0) al) < length al"
proof (cases al)
  case Nil
  then show "al \<noteq> [] \<Longrightarrow> ?thesis" by simp
next
  case (Cons p rest)
  have "length (AList.delete (fst p) rest) \<le> length rest"
    by (rule length_delete_le)
  then have "length (AList.delete (fst p) rest) < Suc (length rest)"
    by simp
  with Cons show ?thesis
    by (cases p) (simp add: AList.delete_eq)
qed

lemma cacheCurrentScreenshot_bound:
  assumes "length (screenshotCache ps) \<le> 20"
  shows "length (screenshotCache (fst (cacheCurrentScreenshot pageKey reply write_ok (ps, sto)))) \<le> 20"
proof -
  have step: "length (if length (map fst sc) > 20 then AList.delete (map fst sc ! 0) sc else sc) \<le> 20"
    if "length sc \<le> 21" for sc :: "string js_object"
  proof (cases "length sc > 20")
    case True
    then have "sc \<noteq> []" by auto
    from delete_first_key_shorter [OF this] that True show ?thesis by simp
  next
    case False
    then show ?thesis by simp
  qed
  have upd: "length (AList.update k v (screenshotCache ps)) \<le> 21" for k v
    using update_length_le [of k v "screenshotCache ps"] assms by simp
  show ?thesis
    using assms step [OF upd]
    by (simp add: cacheCurrentScreenshot_def Let_def split: option.splits cache_reply.splits)
qed

lemma update_fresh: "k \<notin> fst ` set al \<Longrightarrow> AList.update k v al = al @ [(k, v)]"
  by (induction al) auto

lemma delete_head_distinct:
  "distinct (map fst (p # rest)) \<Longrightarrow> AList.delete (fst p) (p # rest @ others) = rest @ AList.delete (fst p) others"
  by (cases p) (force simp: AList.delete_eq filter_id_conv)

lemma cacheCurrentScreenshot_evicts_oldest:
  assumes full: "length (screenshotCache ps) = 20"
    and dist: "distinct (map fst (screenshotCache ps))"
    and new: "key \<notin> fst ` set (screenshotCache ps)" "key \<noteq> []"
    and annotated: "allAnnotationsCache ps = Some c" "map_of c key = Some l" "l \<noteq> []"
    and shot: "shot \<noteq> []"
  shows "screenshotCache (fst (cacheCurrentScreenshot (Some key) (Reply (Some shot)) write_ok (ps, sto)))
           = tl (screenshotCache ps) @ [(key, shot)]"
proof -
  from full obtain p rest where sc: "screenshotCache ps = p # rest"
    by (cases "screenshotCache ps") auto
  from new sc have ne: "fst p \<noteq> key" by auto
  have "AList.delete (fst p) (p # rest @ [(key, shot)]) = rest @ AList.delete (fst p) [(key, shot)]"
    using dist sc by (intro delete_head_distinct) simp
  with ne have del: "AList.delete (fst p) (p # rest @ [(key, shot)]) = rest @ [(key, shot)]"
    by (simp add: AList.delete_eq)
  have upd: "AList.update key shot (screenshotCache ps) = p # rest @ [(key, shot)]"
    using update_fresh [OF new(1), of shot] sc by simp
  have len: "length (AList.update key shot (screenshotCache ps)) = 21"
    unfolding upd using full sc by simp
  have first: "map fst (AList.update key shot (screenshotCache ps)) ! 0 = fst p"
    unfolding upd by simp
  have del': "AList.delete (fst p) (AList.update key shot (screenshotCache ps))
                = tl (screenshotCache ps) @ [(key, shot)]"
    unfolding upd using del sc by simp
  show ?thesis
    using new(2) annotated shot len first del'
    by (simp add: cacheCurrentScreenshot_def Let_def)
qed

lemmas cache_simps = generateMultiPagePresentation_cache_def cacheCurrentScreenshot_def
  export_tab_def getPageKey_def Let_def cached_pages_20

text \<open>
  C8 fails on the code.  \<open>cacheCurrentScreenshot\<close> evicts as the claim says (the two lemmas
  above), but the write in \<open>generateMultiPagePresentation\<close> does not evict.  On a cache
  that holds twenty pages, an export of all pages from a twenty-first page with a
  successful capture leaves twenty-one entries, the oldest still among them, in memory and
  in storage.
\<close>

theorem export_write_exceeds_bound:
  "length (screenshotCache export_tab) = 20 \<and>
   map fst (screenshotCache (fst (generateMultiPagePresentation_cache
       (Some ''data:image/png;base64,BBBB'') True (export_tab, empty_storage))))
     = map fst (cached_pages 20) @ [''/r/20''] \<and>
   length (screenshotCache (fst (generateMultiPagePresentation_cache
       (Some ''data:image/png;base64,BBBB'') True (export_tab, empty_storage)))) = 21 \<and>
   map_option length (st_screenshotCache (snd (generateMultiPagePresentation_cache
       (Some ''data:image/png;base64,BBBB'') True (export_tab, empty_storage)))) = Some 21"
  by (simp add: cache_simps empty_storage_def)

text \<open>The same write through \<open>cacheCurrentScreenshot\<close> drops \<open>/r/0\<close> and keeps twenty.\<close>

lemma put_on_same_input_evicts:
  "map fst (screenshotCache (fst (cacheCurrentScreenshot None
       (Reply (Some ''data:image/png;base64,BBBB'')) True (export_tab, empty_storage))))
     = tl (map fst (cached_pages 20)) @ [''/r/20'']"
  by (simp add: cache_simps empty_storage_def AList.delete_eq)

section \<open>Report canvas and crop\<close>

lemma first_match_none:
  "(\<forall>selector \<in> set sels. querySelector doc selector = None) \<Longrightarrow> first_match doc sels = None"
  by (induction sels) simp_all

lemma getReportCanvas_revised_not_found:
  "(\<forall>selector \<in> set canvasSelectors. querySelector doc selector = None) \<Longrightarrow>
     getReportCanvas_revised doc = None"
  by (simp add: getReportCanvas_revised_def first_match_none)

text \<open>
  C5 fails on src/content/content.js.  On a page where no selector of the list matches,
  \<open>getReportCanvas\<close> does not answer "not found": it returns the largest \<open>div\<close> wider than
  800 and higher than 400, here the navigation pane rather than the content.  The revision
  carried in REVIEW.md, whose review calls this fallback a bug, answers "not found" there
  and on every page without a match (the lemma above).
\<close>

theorem largest_div_fallback:
  "first_match unknown_markup canvasSelectors = None \<and>
   getReportCanvas unknown_markup = Some navigation_pane \<and>
   getReportCanvas_revised unknown_markup = None"
proof -
  have n: "first_match unknown_markup canvasSelectors = None"
    by (rule first_match_none) (simp add: unknown_markup_def)
  have "getReportCanvas unknown_markup = Some navigation_pane"
    by (simp add: getReportCanvas_def n)
       (simp add: unknown_markup_def navigation_pane_def content_area_def area_def)
  with n show ?thesis by (simp add: getReportCanvas_revised_def)
qed

text \<open>
  C4, in exact arithmetic.  On a window of positive width and height, and for an image that
  decodes, \<open>cropScreenshotToCanvas\<close> and its revision draw the same crop: the source
  rectangle is the target's rectangle scaled, per axis, by image pixels over viewport CSS
  pixels; the device pixel ratio that the first version multiplies in cancels against the
  one it divides by.  For a target that spans the viewport the source rectangle is the
  whole image, at offset zero, and it is drawn onto the whole canvas, whose size is the
  viewport's size times the device pixel ratio (fraction dropped), whatever the ratio of
  image to viewport is, so also under browser zoom.
\<close>

theorem crop_scales_by_image_ratio:
  assumes "0 < innerWidth w" and "0 < innerHeight w"
  shows "\<exists>c. cropScreenshotToCanvas (Loaded img) rect w = Cropped c \<and>
             cropScreenshotToCanvas_revised (Loaded img) rect w = Cropped c \<and>
             sourceX c = rect_left rect * (img_width img / innerWidth w) \<and>
             sourceY c = rect_top rect * (img_height img / innerHeight w) \<and>
             sourceWidth c = rect_width rect * (img_width img / innerWidth w) \<and>
             sourceHeight c = rect_height rect * (img_height img / innerHeight w) \<and>
             (rect = viewport_rect w \<longrightarrow>
                sourceX c = 0 \<and> sourceY c = 0 \<and>
                sourceWidth c = img_width img \<and> sourceHeight c = img_height img \<and>
                destX c = 0 \<and> destY c = 0 \<and>
                destWidth c = of_int (canvas_width c) \<and> destHeight c = of_int (canvas_height c) \<and>
                canvas_width c =
                  \<lfloor>innerWidth w * (if devicePixelRatio w = 0 then 1 else devicePixelRatio w)\<rfloor> \<and>
                canvas_height c =
                  \<lfloor>innerHeight w * (if devicePixelRatio w = 0 then 1 else devicePixelRatio w)\<rfloor>)"
  using assms
  by (auto simp: cropScreenshotToCanvas_def cropScreenshotToCanvas_revised_def Let_def
      viewport_rect_def)


text \<open>A viewport of 1280 by 720 CSS pixels at device pixel ratio 3/2, captured as 2400 by
  1350 pixels: image over viewport is 15/8, not the device pixel ratio.\<close>

theorem crop_scales_by_image_ratio_witness:
  "0 < innerWidth \<lparr>innerWidth = 1280, innerHeight = 720, devicePixelRatio = 3 / 2\<rparr> \<and>
   0 < innerHeight \<lparr>innerWidth = 1280, innerHeight = 720, devicePixelRatio = 3 / 2\<rparr> \<and>
   cropScreenshotToCanvas (Loaded \<lparr>img_width = 2400, img_height = 1350\<rparr>)
     (viewport_rect \<lparr>innerWidth = 1280, innerHeight = 720, devicePixelRatio = 3 / 2\<rparr>)
     \<lparr>innerWidth = 1280, innerHeight = 720, devicePixelRatio = 3 / 2\<rparr> =
   Cropped \<lparr>canvas_width = 1920, canvas_height = 1080,
            sourceX = 0, sourceY = 0, sourceWidth = 2400, sourceHeight = 1350,
            destX = 0, destY = 0, destWidth = 1920, destHeight = 1080\<rparr>"
  using crop_scales_by_image_ratio
    [of "\<lparr>innerWidth = 1280, innerHeight = 720, devicePixelRatio = 3 / 2\<rparr>"
        "\<lparr>img_width = 2400, img_height = 1350\<rparr>"
        "viewport_rect \<lparr>innerWidth = 1280, innerHeight = 720, devicePixelRatio = 3 / 2\<rparr>"]
  by (auto simp: viewport_rect_def)

section \<open>Pagination of the single-page export\<close>


















text \<open>An image that loads with a positive width and height is fitted inside its box and
  keeps its aspect ratio.\<close>

lemma fit_image_inside:
  assumes "0 < naturalWidth" and "0 < naturalHeight" and "0 < screenshotW" and "0 < contentH"
  shows "\<exists>imgY imgW imgH.
           fit_image screenshotW contentH contentY naturalWidth naturalHeight
             = (imgY, Finite imgW, imgH) \<and>
           0 < imgW \<and> imgW \<le> screenshotW \<and> 0 < imgH \<and> imgH \<le> contentH \<and>
           imgW * of_nat naturalHeight = imgH * of_nat naturalWidth \<and>
           imgY = contentY + (contentH - imgH) / 2"
proof (cases "(of_nat naturalWidth :: rat) / of_nat naturalHeight > screenshotW / contentH")
  case True
  have a: "(0 :: rat) < of_nat naturalWidth / of_nat naturalHeight"
    using assms by simp
  from True have "screenshotW * of_nat naturalHeight < of_nat naturalWidth * contentH"
    using assms by (simp add: field_simps)
  then have "screenshotW / (of_nat naturalWidth / of_nat naturalHeight) \<le> contentH"
    using assms by (simp add: field_simps)
  with True a assms show ?thesis
    by (simp add: fit_image_def Let_def)
next
  case False
  then have "of_nat naturalWidth * contentH \<le> screenshotW * of_nat naturalHeight"
    using assms by (simp add: field_simps)
  then have "contentH * (of_nat naturalWidth / of_nat naturalHeight) \<le> screenshotW"
    using assms by (simp add: field_simps)
  with False assms show ?thesis
    by (simp add: fit_image_def Let_def)
qed












end
